theory Spec2Isabelle
  imports Main "HOL-Library.Word"
begin

unbundle bit_operations_syntax

section \<open>POSIX shared-memory helper (src/main/c/ShmCreate.c)\<close>

text \<open>
  The C file wraps \<open>shm_open\<close>, \<open>fstat\<close>, \<open>ftruncate\<close>, \<open>close\<close> and \<open>shm_unlink\<close>.
  The three helpers and \<open>main\<close> are translated line by line into state-passing
  functions over a model of the part of the operating system they talk to: the
  shared-memory namespace, the objects with their sizes, and the descriptor table
  of the calling process. Shared-memory objects live in a store indexed by object
  identifiers, since several descriptors (and the name) alias one object.

  The library calls themselves are not part of the source. They are modelled from the
  specification (its sections 3 and 4.1, which follow POSIX); the source functions are
  modelled from the C text.

  C types are those of an LP64 platform: \<open>int\<close> is a 32-bit word, \<open>long\<close>, \<open>off_t\<close> and
  \<open>size_t\<close> are 64-bit words; signed comparisons of the source are \<open><s\<close>.
\<close>

subsection \<open>C types\<close>

type_synonym c_int = "32 word"
type_synonym c_long = "64 word"
type_synonym off_t = "64 word"
type_synonym size_t = "64 word"
type_synonym mode_t = "32 word"

text \<open>\<open>struct stat\<close>, reduced to the one field the source reads.\<close>

record stat =
  st_size :: off_t

subsection \<open>The operating system as seen by the process\<close>

type_synonym obj_id = nat

text \<open>
  Every library call the source makes is recorded, with its arguments and its return
  value, in the order in which it happens. \<open>perror\<close> output and \<open>exit\<close> are events too.
\<close>

datatype event =
    EvShmOpen string c_int
  | EvFstat c_int c_int
  | EvFtruncate c_int off_t c_int
  | EvClose c_int c_int
  | EvShmUnlink string c_int
  | EvPerror string
  | EvExit c_int

text \<open>
  \<open>shm_names\<close> is the system-wide namespace, \<open>obj_size\<close> the size of each object,
  \<open>fd_table\<close> the open descriptors of the process, \<open>open_max\<close> the descriptor limit,
  \<open>next_obj\<close> the next unused object identifier. \<open>fault_plan\<close> scripts the failures
  that do not follow from the arguments (permissions, I/O errors, exhausted resources):
  each of \<open>shm_open\<close>, \<open>fstat\<close>, \<open>ftruncate\<close> and \<open>shm_unlink\<close> consumes one entry and
  fails when it is \<open>True\<close>; an empty plan injects no failure.
\<close>

record os =
  shm_names :: "string \<rightharpoonup> obj_id"
  obj_size :: "obj_id \<Rightarrow> off_t"
  fd_table :: "c_int \<rightharpoonup> obj_id"
  open_max :: nat
  next_obj :: obj_id
  fault_plan :: "bool list"
  trace :: "event list"

definition record_event :: "event \<Rightarrow> os \<Rightarrow> os" where
  "record_event e s = s\<lparr>trace := trace s @ [e]\<rparr>"

definition next_fault :: "os \<Rightarrow> bool \<times> os" where
  "next_fault s =
     (case fault_plan s of
        [] \<Rightarrow> (False, s)
      | b # bs \<Rightarrow> (b, s\<lparr>fault_plan := bs\<rparr>))"

text \<open>
  \<open>shm_open\<close> returns the lowest descriptor number that is not open. Descriptor
  numbers are non-negative values of \<open>int\<close>, hence below \<open>2 ^ 31\<close>, and below the limit.
\<close>

definition lowest_free_fd :: "os \<Rightarrow> c_int option" where
  "lowest_free_fd s =
     map_option word_of_nat
       (find (\<lambda>n. fd_table s (word_of_nat n) = None) [0..<min (open_max s) 2147483648])"

text \<open>
  Modelled from the spec: the macros \<open>O_RDWR\<close>, \<open>O_CREAT\<close> and \<open>EXIT_FAILURE\<close> come from
  \<open>fcntl.h\<close> and \<open>stdlib.h\<close>, which are not in the source. The open is "open-or-create
  with read/write access", a failed creation gives "a non-zero status"; the values are
  those of Linux on x86-64.
\<close>

definition O_RDWR :: c_int where
  "O_RDWR = 2"

definition O_CREAT :: c_int where
  "O_CREAT = 64"

definition EXIT_FAILURE :: c_int where
  "EXIT_FAILURE = 1"

text \<open>
  Modelled from the spec: \<open>shm_open(name, oflag, mode)\<close> attaches to the object bound to
  \<open>name\<close>, or, with \<open>O_CREAT\<close>, creates an object of size zero and binds the name to it.
  The call fails with \<open>-1\<close> on an injected fault, when no descriptor is free, and when
  the name is unbound and \<open>O_CREAT\<close> is not given. Permission bits are not modelled.
\<close>

definition shm_open :: "string \<Rightarrow> c_int \<Rightarrow> mode_t \<Rightarrow> os \<Rightarrow> c_int \<times> os" where
  "shm_open name oflag mode s =
     (let (fault, s0) = next_fault s;
          (r, s1) =
            (if fault then (- 1, s0)
             else case lowest_free_fd s0 of
                 None \<Rightarrow> (- 1, s0)
               | Some fd \<Rightarrow>
                  (case shm_names s0 name of
                     Some oid \<Rightarrow> (fd, s0\<lparr>fd_table := (fd_table s0)(fd \<mapsto> oid)\<rparr>)
                   | None \<Rightarrow>
                      if oflag AND O_CREAT = 0 then (- 1, s0)
                      else (fd, s0\<lparr>shm_names := (shm_names s0)(name \<mapsto> next_obj s0),
                                    obj_size := (obj_size s0)(next_obj s0 := 0),
                                    fd_table := (fd_table s0)(fd \<mapsto> next_obj s0),
                                    next_obj := Suc (next_obj s0)\<rparr>)))
      in (r, record_event (EvShmOpen name r) s1))"

text \<open>
  Modelled from the spec: \<open>fstat(fd, &buf)\<close> returns \<open>0\<close> and the size of the object
  behind \<open>fd\<close>; it fails with \<open>-1\<close> on an injected fault and on a descriptor that is not
  open. On failure the buffer is not filled; the model hands back a zeroed one, which
  the source never reads.
\<close>

definition fstat :: "c_int \<Rightarrow> os \<Rightarrow> c_int \<times> stat \<times> os" where
  "fstat fd s =
     (let (fault, s0) = next_fault s;
          (r, buf) =
            (if fault then (- 1, \<lparr>st_size = 0\<rparr>)
             else case fd_table s0 fd of
                 None \<Rightarrow> (- 1, \<lparr>st_size = 0\<rparr>)
               | Some oid \<Rightarrow> (0, \<lparr>st_size = obj_size s0 oid\<rparr>))
      in (r, buf, record_event (EvFstat fd r) s0))"

text \<open>
  Modelled from the spec: \<open>ftruncate(fd, length)\<close> sets the size of the object behind
  \<open>fd\<close> to \<open>length\<close>; it fails with \<open>-1\<close> on an injected fault, on a descriptor that is
  not open, and on a negative length (\<open>EINVAL\<close>).
\<close>

definition ftruncate :: "c_int \<Rightarrow> off_t \<Rightarrow> os \<Rightarrow> c_int \<times> os" where
  "ftruncate fd len s =
     (let (fault, s0) = next_fault s;
          (r, s1) =
            (if fault then (- 1, s0)
             else case fd_table s0 fd of
                 None \<Rightarrow> (- 1, s0)
               | Some oid \<Rightarrow>
                  if len <s 0 then (- 1, s0)
                  else (0, s0\<lparr>obj_size := (obj_size s0)(oid := len)\<rparr>))
      in (r, record_event (EvFtruncate fd len r) s1))"

text \<open>
  Modelled from the spec: \<open>close(fd)\<close> releases an open descriptor; it fails with \<open>-1\<close>
  on one that is not open.
\<close>

definition close :: "c_int \<Rightarrow> os \<Rightarrow> c_int \<times> os" where
  "close fd s =
     (let (r, s1) =
            (case fd_table s fd of
               None \<Rightarrow> (- 1, s)
             | Some oid \<Rightarrow> (0, s\<lparr>fd_table := (fd_table s)(fd := None)\<rparr>))
      in (r, record_event (EvClose fd r) s1))"

text \<open>
  Modelled from the spec: \<open>shm_unlink(name)\<close> removes the name from the namespace; the
  object stays in the store for the descriptors that still refer to it. The call fails
  with \<open>-1\<close> on an injected fault and on a name that is not bound.
\<close>

definition shm_unlink :: "string \<Rightarrow> os \<Rightarrow> c_int \<times> os" where
  "shm_unlink name s =
     (let (fault, s0) = next_fault s;
          (r, s1) =
            (if fault then (- 1, s0)
             else case shm_names s0 name of
                 None \<Rightarrow> (- 1, s0)
               | Some oid \<Rightarrow> (0, s0\<lparr>shm_names := (shm_names s0)(name := None)\<rparr>))
      in (r, record_event (EvShmUnlink name r) s1))"

text \<open>
  Modelled from the spec: \<open>perror\<close> writes a diagnostic that names the failed operation;
  \<open>exit\<close> ends the process with the given status. Both are kept as events.
\<close>

definition perror :: "string \<Rightarrow> os \<Rightarrow> os" where
  "perror msg s = record_event (EvPerror msg) s"

definition exit_process :: "c_int \<Rightarrow> os \<Rightarrow> os" where
  "exit_process status s = record_event (EvExit status) s"

subsection \<open>The source functions\<close>

text \<open>\<open>long get_shared_memory_size(int fd)\<close>; the cast from \<open>off_t\<close> to \<open>long\<close> is \<open>scast\<close>.\<close>

definition get_shared_memory_size :: "c_int \<Rightarrow> os \<Rightarrow> c_long \<times> os" where
  "get_shared_memory_size fd s =
     (let (r, shm_stat, s1) = fstat fd s
      in if r = - 1 then (- 1, perror ''fstat'' s1)
         else (scast (st_size shm_stat), s1))"

text \<open>\<open>int create_shared_memory(const char *name, long size)\<close>; the parameter \<open>size\<close> is
  written \<open>size'\<close>, and \<open>0666\<close> is octal, \<open>438\<close>.\<close>

definition create_shared_memory :: "string \<Rightarrow> c_long \<Rightarrow> os \<Rightarrow> c_int \<times> os" where
  "create_shared_memory name size' s =
     (let (fd, s1) = shm_open name (O_CREAT OR O_RDWR) 438 s
      in if fd <s 0 then (- 1, perror ''shm_open'' s1)
         else
           let (already_size, s2) = get_shared_memory_size fd s1
           in if 0 <s already_size then (fd, s2)
              else
                let (r, s3) = ftruncate fd (scast size') s2
                in if r = - 1
                   then (let s4 = perror ''ftruncate'' s3;
                             (c, s5) = close fd s4
                         in (- 1, s5))
                   else (fd, s3))"

text \<open>\<open>void unlink_shared_memory(const char *name)\<close>.\<close>

definition unlink_shared_memory :: "string \<Rightarrow> os \<Rightarrow> os" where
  "unlink_shared_memory name s =
     (let (r, s1) = shm_unlink name s
      in if r = - 1 then perror ''shm_unlink'' s1 else s1)"

text \<open>
  \<open>int main()\<close>: the result is the exit status of the process, either the argument of
  \<open>exit\<close> or the value returned from \<open>main\<close>.
\<close>

definition main :: "os \<Rightarrow> c_int \<times> os" where
  "main s =
     (let shm_name = ''/myshm'';
          shm_size = (1024 :: size_t);
          (shm_fd, s1) = create_shared_memory shm_name (ucast shm_size) s
      in if shm_fd <s 0 then (EXIT_FAILURE, exit_process EXIT_FAILURE s1)
         else
           let (c, s2) = close shm_fd s1;
               s3 = unlink_shared_memory shm_name s2
           in (0, s3))"

subsection \<open>Observations on a run\<close>

text \<open>The events a call added to the trace.\<close>

definition new_events :: "os \<Rightarrow> os \<Rightarrow> event list" where
  "new_events s s' = drop (length (trace s)) (trace s')"

text \<open>
  An event reports success when the call returned what POSIX documents for success:
  a non-negative descriptor from \<open>shm_open\<close>, zero from the other calls.
\<close>

fun ok_event :: "event \<Rightarrow> bool" where
  "ok_event (EvShmOpen name r) = (0 \<le>s r)"
| "ok_event (EvFstat fd r) = (r = 0)"
| "ok_event (EvFtruncate fd len r) = (r = 0)"
| "ok_event (EvClose fd r) = (r = 0)"
| "ok_event (EvShmUnlink name r) = (r = 0)"
| "ok_event (EvPerror msg) = True"
| "ok_event (EvExit status) = True"

text \<open>Every operating-system call made between two states succeeded.\<close>

definition calls_ok :: "os \<Rightarrow> os \<Rightarrow> bool" where
  "calls_ok s s' = list_all ok_event (new_events s s')"

text \<open>The failures a run can contain, and the kinds of call it can make.\<close>

fun failed_open :: "event \<Rightarrow> bool" where
  "failed_open (EvShmOpen name r) = (r <s 0)"
| "failed_open e = False"

fun failed_size_query :: "event \<Rightarrow> bool" where
  "failed_size_query (EvFstat fd r) = (r = - 1)"
| "failed_size_query e = False"

fun failed_resize :: "event \<Rightarrow> bool" where
  "failed_resize (EvFtruncate fd len r) = (r = - 1)"
| "failed_resize e = False"

fun is_resize :: "event \<Rightarrow> bool" where
  "is_resize (EvFtruncate fd len r) = True"
| "is_resize e = False"

fun is_size_query :: "event \<Rightarrow> bool" where
  "is_size_query (EvFstat fd r) = True"
| "is_size_query e = False"

fun is_exit :: "event \<Rightarrow> bool" where
  "is_exit (EvExit status) = True"
| "is_exit e = False"

text \<open>
  Well-formed system states: names and descriptors refer to objects that have been
  allocated, and no object has a negative size.
\<close>

definition wf_os :: "os \<Rightarrow> bool" where
  "wf_os s \<longleftrightarrow>
     (\<forall>name oid. shm_names s name = Some oid \<longrightarrow> oid < next_obj s) \<and>
     (\<forall>fd oid. fd_table s fd = Some oid \<longrightarrow> oid < next_obj s) \<and>
     (\<forall>oid. 0 \<le>s obj_size s oid)"

text \<open>
  The scenarios of the specification's testable properties: create or open a name and
  query the size through the descriptor that was returned; and the same after the name
  has been unlinked. The result is the descriptor, the queried size and the final state.
\<close>

definition create_query :: "string \<Rightarrow> c_long \<Rightarrow> os \<Rightarrow> c_int \<times> c_long \<times> os" where
  "create_query name size' s =
     (let (fd, s1) = create_shared_memory name size' s;
          (z, s2) = get_shared_memory_size fd s1
      in (fd, z, s2))"

definition unlink_create_query :: "string \<Rightarrow> c_long \<Rightarrow> os \<Rightarrow> c_int \<times> c_long \<times> os" where
  "unlink_create_query name size' s = create_query name size' (unlink_shared_memory name s)"

text \<open>A system state with nothing in it: the start of the concrete runs below.\<close>

definition os_init :: "nat \<Rightarrow> bool list \<Rightarrow> os" where
  "os_init limit faults =
     \<lparr>shm_names = Map.empty, obj_size = (\<lambda>_. 0), fd_table = Map.empty,
      open_max = limit, next_obj = 0, fault_plan = faults, trace = []\<rparr>"

text \<open>
  A state in which another process has created \<open>/testshm\<close> with 4096 bytes and this
  process has no descriptor open; the fault plan is a parameter.
\<close>

definition os_testshm :: "bool list \<Rightarrow> os" where
  "os_testshm faults =
     \<lparr>shm_names = [''/testshm'' \<mapsto> 0], obj_size = (\<lambda>_. 0)(0 := 4096), fd_table = Map.empty,
      open_max = 8, next_obj = 1, fault_plan = faults, trace = []\<rparr>"

section \<open>What each call does\<close>

subsection \<open>Operating-system calls\<close>

lemma oflag_creat: "(O_CREAT OR O_RDWR) AND O_CREAT \<noteq> 0"
  by (simp add: O_CREAT_def O_RDWR_def)

lemma lowest_free_fd_Some:
  assumes "lowest_free_fd s = Some fd"
  shows "0 \<le>s fd" and "fd_table s fd = None"
proof -
  from assms obtain n
    where n: "find (\<lambda>n. fd_table s (word_of_nat n) = None) [0..<min (open_max s) 2147483648] = Some n"
      and fd: "fd = word_of_nat n"
    by (auto simp: lowest_free_fd_def)
  from n have free: "fd_table s (word_of_nat n) = None" and less: "n < 2147483648"
    by (auto simp: find_Some_iff)
  from less show "0 \<le>s fd"
    by (simp add: fd word_sle_eq signed_of_nat signed_take_bit_int_eq_self)
  from free show "fd_table s fd = None"
    by (simp add: fd)
qed

lemma next_fault_frame:
  assumes "next_fault s = (b, s0)"
  shows "shm_names s0 = shm_names s" "obj_size s0 = obj_size s" "fd_table s0 = fd_table s"
    "open_max s0 = open_max s" "next_obj s0 = next_obj s" "trace s0 = trace s"
  using assms by (auto simp: next_fault_def split: list.splits)

lemma shm_open_cases [consumes 1, case_names failed attached created]:
  assumes "shm_open name oflag mode s = (fd, s1)"
  obtains
    (failed) "fd = - 1" "shm_names s1 = shm_names s" "obj_size s1 = obj_size s"
      "fd_table s1 = fd_table s" "next_obj s1 = next_obj s"
      "trace s1 = trace s @ [EvShmOpen name (- 1)]"
  | (attached) oid where "0 \<le>s fd" "fd_table s fd = None" "shm_names s name = Some oid"
      "shm_names s1 = shm_names s" "obj_size s1 = obj_size s"
      "fd_table s1 = (fd_table s)(fd \<mapsto> oid)" "next_obj s1 = next_obj s"
      "trace s1 = trace s @ [EvShmOpen name fd]"
  | (created) "0 \<le>s fd" "fd_table s fd = None" "shm_names s name = None"
      "oflag AND O_CREAT \<noteq> 0"
      "shm_names s1 = (shm_names s)(name \<mapsto> next_obj s)"
      "obj_size s1 = (obj_size s)(next_obj s := 0)"
      "fd_table s1 = (fd_table s)(fd \<mapsto> next_obj s)" "next_obj s1 = Suc (next_obj s)"
      "trace s1 = trace s @ [EvShmOpen name fd]"
proof -
  obtain b s0 where nf: "next_fault s = (b, s0)"
    by (cases "next_fault s")
  note fr = next_fault_frame [OF nf]
  show thesis
  proof (cases "b \<or> lowest_free_fd s0 = None \<or> (shm_names s0 name = None \<and> oflag AND O_CREAT = 0)")
    case True
    with assms nf have "fd = - 1" and "s1 = record_event (EvShmOpen name (- 1)) s0"
      by (auto simp: shm_open_def split: option.splits if_splits)
    with fr show thesis
      by (intro failed) (simp_all add: record_event_def)
  next
    case False
    then obtain fd' where free: "lowest_free_fd s0 = Some fd'" and nb: "\<not> b"
      by auto
    from lowest_free_fd_Some [OF free] fr have fd': "0 \<le>s fd'" "fd_table s fd' = None"
      by simp_all
    show thesis
    proof (cases "shm_names s0 name")
      case None
      with False have cr: "oflag AND O_CREAT \<noteq> 0" by simp
      from assms nf nb free None cr have "fd = fd'" and
        "s1 = record_event (EvShmOpen name fd')
           (s0\<lparr>shm_names := (shm_names s0)(name \<mapsto> next_obj s0),
               obj_size := (obj_size s0)(next_obj s0 := 0),
               fd_table := (fd_table s0)(fd' \<mapsto> next_obj s0),
               next_obj := Suc (next_obj s0)\<rparr>)"
        by (auto simp: shm_open_def split: option.splits if_splits)
      with fr fd' None cr show thesis
        by (intro created) (simp_all add: record_event_def)
    next
      case (Some oid)
      from assms nf nb free Some have "fd = fd'" and
        "s1 = record_event (EvShmOpen name fd') (s0\<lparr>fd_table := (fd_table s0)(fd' \<mapsto> oid)\<rparr>)"
        by (auto simp: shm_open_def split: option.splits if_splits)
      with fr fd' Some show thesis
        by (intro attached [of oid]) (simp_all add: record_event_def)
    qed
  qed
qed

lemma fstat_cases [consumes 1, case_names failed ok]:
  assumes "fstat fd s = (r, buf, s1)"
  obtains
    (failed) "r = - 1" "shm_names s1 = shm_names s" "obj_size s1 = obj_size s"
      "fd_table s1 = fd_table s" "next_obj s1 = next_obj s"
      "trace s1 = trace s @ [EvFstat fd (- 1)]"
  | (ok) oid where "r = 0" "fd_table s fd = Some oid" "st_size buf = obj_size s oid"
      "shm_names s1 = shm_names s" "obj_size s1 = obj_size s"
      "fd_table s1 = fd_table s" "next_obj s1 = next_obj s"
      "trace s1 = trace s @ [EvFstat fd 0]"
proof -
  obtain b s0 where nf: "next_fault s = (b, s0)"
    by (cases "next_fault s")
  note fr = next_fault_frame [OF nf]
  show thesis
  proof (cases "b \<or> fd_table s0 fd = None")
    case True
    with assms nf have "r = - 1" and "s1 = record_event (EvFstat fd (- 1)) s0"
      by (auto simp: fstat_def split: option.splits if_splits)
    with fr show thesis
      by (intro failed) (simp_all add: record_event_def)
  next
    case False
    then obtain oid where oid: "fd_table s0 fd = Some oid" and nb: "\<not> b"
      by auto
    with assms nf have "r = 0" and "buf = \<lparr>st_size = obj_size s0 oid\<rparr>"
      and "s1 = record_event (EvFstat fd 0) s0"
      by (auto simp: fstat_def split: option.splits if_splits)
    with fr oid show thesis
      by (intro ok [of oid]) (simp_all add: record_event_def)
  qed
qed

lemma ftruncate_cases [consumes 1, case_names failed ok]:
  assumes "ftruncate fd len s = (r, s1)"
  obtains
    (failed) "r = - 1" "shm_names s1 = shm_names s" "obj_size s1 = obj_size s"
      "fd_table s1 = fd_table s" "next_obj s1 = next_obj s"
      "trace s1 = trace s @ [EvFtruncate fd len (- 1)]"
  | (ok) oid where "r = 0" "fd_table s fd = Some oid" "0 \<le>s len"
      "shm_names s1 = shm_names s" "obj_size s1 = (obj_size s)(oid := len)"
      "fd_table s1 = fd_table s" "next_obj s1 = next_obj s"
      "trace s1 = trace s @ [EvFtruncate fd len 0]"
proof -
  obtain b s0 where nf: "next_fault s = (b, s0)"
    by (cases "next_fault s")
  note fr = next_fault_frame [OF nf]
  show thesis
  proof (cases "b \<or> fd_table s0 fd = None \<or> len <s 0")
    case True
    with assms nf have "r = - 1" and "s1 = record_event (EvFtruncate fd len (- 1)) s0"
      by (auto simp: ftruncate_def split: option.splits if_splits)
    with fr show thesis
      by (intro failed) (simp_all add: record_event_def)
  next
    case False
    then obtain oid where oid: "fd_table s0 fd = Some oid" and nb: "\<not> b" and nn: "\<not> len <s 0"
      by auto
    with assms nf have "r = 0"
      and "s1 = record_event (EvFtruncate fd len 0) (s0\<lparr>obj_size := (obj_size s0)(oid := len)\<rparr>)"
      by (auto simp: ftruncate_def split: option.splits if_splits)
    moreover from nn have "0 \<le>s len"
      by (simp add: word_sle_eq word_sless_alt)
    ultimately show thesis using fr oid
      by (intro ok [of oid]) (simp_all add: record_event_def)
  qed
qed

lemma close_cases [consumes 1, case_names failed ok]:
  assumes "close fd s = (r, s1)"
  obtains
    (failed) "r = - 1" "fd_table s fd = None" "shm_names s1 = shm_names s"
      "obj_size s1 = obj_size s" "fd_table s1 = fd_table s" "next_obj s1 = next_obj s"
      "trace s1 = trace s @ [EvClose fd (- 1)]"
  | (ok) oid where "r = 0" "fd_table s fd = Some oid" "shm_names s1 = shm_names s"
      "obj_size s1 = obj_size s" "fd_table s1 = (fd_table s)(fd := None)"
      "next_obj s1 = next_obj s" "trace s1 = trace s @ [EvClose fd 0]"
proof (cases "fd_table s fd")
  case None
  with assms have "r = - 1" and "s1 = record_event (EvClose fd (- 1)) s"
    by (auto simp: close_def split: option.splits if_splits)
  with None show thesis
    by (intro failed) (simp_all add: record_event_def)
next
  case (Some oid)
  with assms have "r = 0"
    and "s1 = record_event (EvClose fd 0) (s\<lparr>fd_table := (fd_table s)(fd := None)\<rparr>)"
    by (auto simp: close_def split: option.splits if_splits)
  with Some show thesis
    by (intro ok [of oid]) (simp_all add: record_event_def)
qed

lemma shm_unlink_cases [consumes 1, case_names failed ok]:
  assumes "shm_unlink name s = (r, s1)"
  obtains
    (failed) "r = - 1" "shm_names s1 = shm_names s" "obj_size s1 = obj_size s"
      "fd_table s1 = fd_table s" "next_obj s1 = next_obj s"
      "trace s1 = trace s @ [EvShmUnlink name (- 1)]"
  | (ok) oid where "r = 0" "shm_names s name = Some oid"
      "shm_names s1 = (shm_names s)(name := None)" "obj_size s1 = obj_size s"
      "fd_table s1 = fd_table s" "next_obj s1 = next_obj s"
      "trace s1 = trace s @ [EvShmUnlink name 0]"
proof -
  obtain b s0 where nf: "next_fault s = (b, s0)"
    by (cases "next_fault s")
  note fr = next_fault_frame [OF nf]
  show thesis
  proof (cases "b \<or> shm_names s0 name = None")
    case True
    with assms nf have "r = - 1" and "s1 = record_event (EvShmUnlink name (- 1)) s0"
      by (auto simp: shm_unlink_def split: option.splits if_splits)
    with fr show thesis
      by (intro failed) (simp_all add: record_event_def)
  next
    case False
    then obtain oid where oid: "shm_names s0 name = Some oid" and nb: "\<not> b"
      by auto
    with assms nf have "r = 0"
      and "s1 = record_event (EvShmUnlink name 0) (s0\<lparr>shm_names := (shm_names s0)(name := None)\<rparr>)"
      by (auto simp: shm_unlink_def split: option.splits if_splits)
    with fr oid show thesis
      by (intro ok [of oid]) (simp_all add: record_event_def)
  qed
qed

lemma unbound_name_unlink_fails:
  "shm_names s name = None \<Longrightarrow> fst (shm_unlink name s) = - 1"
  by (cases "shm_unlink name s") (auto elim: shm_unlink_cases)

lemma shm_unlink_succeeds:
  assumes "\<not> fst (next_fault s)" and "shm_names s name = Some oid"
  shows "fst (shm_unlink name s) = 0"
proof -
  obtain b s0 where nf: "next_fault s = (b, s0)"
    by (cases "next_fault s")
  with assms(1) have "\<not> b"
    by simp
  moreover from next_fault_frame(1) [OF nf] assms(2) have "shm_names s0 name = Some oid"
    by simp
  ultimately show ?thesis using nf
    by (simp add: shm_unlink_def)
qed

subsection \<open>The source functions, path by path\<close>

lemma get_shared_memory_size_cases [consumes 1, case_names failed ok]:
  assumes "get_shared_memory_size fd s = (z, s1)"
  obtains
    (failed) "fst (fstat fd s) = - 1" "z = - 1" "shm_names s1 = shm_names s"
      "obj_size s1 = obj_size s" "fd_table s1 = fd_table s" "next_obj s1 = next_obj s"
      "trace s1 = trace s @ [EvFstat fd (- 1), EvPerror ''fstat'']"
  | (ok) oid where "fst (fstat fd s) = 0" "fd_table s fd = Some oid" "z = obj_size s oid"
      "shm_names s1 = shm_names s" "obj_size s1 = obj_size s" "fd_table s1 = fd_table s"
      "next_obj s1 = next_obj s" "trace s1 = trace s @ [EvFstat fd 0]"
proof -
  obtain r buf s0 where fs: "fstat fd s = (r, buf, s0)"
    by (cases "fstat fd s")
  from fs show thesis
  proof (cases rule: fstat_cases)
    case failed
    with assms fs have "z = - 1" and "s1 = perror ''fstat'' s0"
      by (simp_all add: get_shared_memory_size_def)
    with failed fs show thesis
      by (intro that(1)) (simp_all add: perror_def record_event_def)
  next
    case (ok oid)
    with assms fs have "z = obj_size s oid" and "s1 = s0"
      by (simp_all add: get_shared_memory_size_def)
    with ok fs show thesis
      by (intro that(2) [of oid]) simp_all
  qed
qed

lemma create_shared_memory_cases [consumes 1, case_names open_failed existing resized resize_failed]:
  assumes "create_shared_memory name size' s = (r, s')"
  obtains
    (open_failed) fd s1 where "shm_open name (O_CREAT OR O_RDWR) 438 s = (fd, s1)"
      "fd <s 0" "r = - 1" "s' = perror ''shm_open'' s1"
  | (existing) s1 z where "shm_open name (O_CREAT OR O_RDWR) 438 s = (r, s1)"
      "0 \<le>s r" "get_shared_memory_size r s1 = (z, s')" "0 <s z"
  | (resized) s1 z s2 where "shm_open name (O_CREAT OR O_RDWR) 438 s = (r, s1)"
      "0 \<le>s r" "get_shared_memory_size r s1 = (z, s2)" "\<not> 0 <s z"
      "ftruncate r size' s2 = (0, s')"
  | (resize_failed) fd s1 z s2 s3 c where "shm_open name (O_CREAT OR O_RDWR) 438 s = (fd, s1)"
      "0 \<le>s fd" "get_shared_memory_size fd s1 = (z, s2)" "\<not> 0 <s z"
      "ftruncate fd size' s2 = (- 1, s3)" "close fd (perror ''ftruncate'' s3) = (c, s')"
      "r = - 1"
proof -
  obtain fd s1 where op: "shm_open name (O_CREAT OR O_RDWR) 438 s = (fd, s1)"
    by (cases "shm_open name (O_CREAT OR O_RDWR) 438 s")
  show thesis
  proof (cases "fd <s 0")
    case True
    with assms op show thesis
      by (intro open_failed [of fd s1]) (simp_all add: create_shared_memory_def)
  next
    case nonneg: False
    then have fd0: "0 \<le>s fd"
      by (simp add: word_sle_eq word_sless_alt)
    obtain z s2 where gs: "get_shared_memory_size fd s1 = (z, s2)"
      by (cases "get_shared_memory_size fd s1")
    show thesis
    proof (cases "0 <s z")
      case True
      with assms op nonneg gs have "r = fd" "s' = s2"
        by (simp_all add: create_shared_memory_def)
      with op fd0 gs True show thesis
        by (intro existing [of s1 z]) simp_all
    next
      case small: False
      obtain t s3 where ft: "ftruncate fd size' s2 = (t, s3)"
        by (cases "ftruncate fd size' s2")
      from ft show thesis
      proof (cases rule: ftruncate_cases)
        case failed
        obtain c s5 where cl: "close fd (perror ''ftruncate'' s3) = (c, s5)"
          by (cases "close fd (perror ''ftruncate'' s3)")
        with assms op nonneg gs small ft failed have "r = - 1" "s' = s5"
          by (simp_all add: create_shared_memory_def)
        with op fd0 gs small ft failed cl show thesis
          by (intro resize_failed [of fd s1 z s2 s3 c]) simp_all
      next
        case (ok oid)
        with assms op nonneg gs small ft have "r = fd" "s' = s3"
          by (simp_all add: create_shared_memory_def)
        with op fd0 gs small ft ok show thesis
          by (intro resized [of s1 z s2]) simp_all
      qed
    qed
  qed
qed


lemma not_neg_and_neg: "0 \<le>s (x :: 'a::len word) \<Longrightarrow> x <s 0 \<Longrightarrow> False"
  by (simp add: word_sle_eq word_sless_alt)

lemma new_events_append: "trace s' = trace s @ es \<Longrightarrow> new_events s s' = es"
  by (simp add: new_events_def)

lemma create_shared_memory_run [consumes 1, case_names open_failed existing resized resize_failed]:
  assumes "create_shared_memory name size' s = (r, s')"
  obtains
    (open_failed) "r = - 1" "fst (shm_open name (O_CREAT OR O_RDWR) 438 s) = - 1"
      "trace s' = trace s @ [EvShmOpen name (- 1), EvPerror ''shm_open'']"
      "shm_names s' = shm_names s" "obj_size s' = obj_size s" "fd_table s' = fd_table s"
      "next_obj s' = next_obj s"
  | (existing) oid where "0 \<le>s r" "fd_table s r = None" "shm_names s name = Some oid"
      "0 <s obj_size s oid" "fst (shm_open name (O_CREAT OR O_RDWR) 438 s) = r"
      "trace s' = trace s @ [EvShmOpen name r, EvFstat r 0]"
      "shm_names s' = shm_names s" "obj_size s' = obj_size s"
      "fd_table s' = (fd_table s)(r \<mapsto> oid)" "next_obj s' = next_obj s"
  | (resized) oid q where "0 \<le>s r" "fd_table s r = None" "0 \<le>s size'"
      "fst (shm_open name (O_CREAT OR O_RDWR) 438 s) = r"
      "trace s' = trace s @ EvShmOpen name r # q @ [EvFtruncate r size' 0]"
      "q = [EvFstat r 0] \<or> q = [EvFstat r (- 1), EvPerror ''fstat'']"
      "shm_names s name = None \<and> oid = next_obj s \<and> next_obj s' = Suc (next_obj s) \<or>
       shm_names s name = Some oid \<and> next_obj s' = next_obj s \<and>
         (q = [EvFstat r 0] \<longrightarrow> \<not> 0 <s obj_size s oid)"
      "shm_names s' = (shm_names s)(name \<mapsto> oid)" "obj_size s' = (obj_size s)(oid := size')"
      "fd_table s' = (fd_table s)(r \<mapsto> oid)"
  | (resize_failed) fd oid q where "r = - 1" "0 \<le>s fd" "fd_table s fd = None"
      "fst (shm_open name (O_CREAT OR O_RDWR) 438 s) = fd"
      "trace s' = trace s @
         EvShmOpen name fd # q @ [EvFtruncate fd size' (- 1), EvPerror ''ftruncate'', EvClose fd 0]"
      "q = [EvFstat fd 0] \<or> q = [EvFstat fd (- 1), EvPerror ''fstat'']"
      "shm_names s name = None \<and> oid = next_obj s \<and> next_obj s' = Suc (next_obj s) \<and>
         obj_size s' = (obj_size s)(oid := 0) \<or>
       shm_names s name = Some oid \<and> next_obj s' = next_obj s \<and> obj_size s' = obj_size s \<and>
         (q = [EvFstat fd 0] \<longrightarrow> \<not> 0 <s obj_size s oid)"
      "shm_names s' = (shm_names s)(name \<mapsto> oid)" "fd_table s' = fd_table s"
  using assms
proof (cases rule: create_shared_memory_cases)
  case (open_failed fd s1)
  from open_failed(1) have "fd = - 1 \<and> shm_names s1 = shm_names s \<and> obj_size s1 = obj_size s \<and>
      fd_table s1 = fd_table s \<and> next_obj s1 = next_obj s \<and>
      trace s1 = trace s @ [EvShmOpen name (- 1)]"
    using open_failed(2) by (cases rule: shm_open_cases) (auto dest: not_neg_and_neg)
  with open_failed show thesis
    by (intro that(1)) (simp_all add: perror_def record_event_def)
next
  case (existing s1 z)
  from existing(3) obtain oid where q: "fd_table s1 r = Some oid" "z = obj_size s1 oid"
    "shm_names s' = shm_names s1" "obj_size s' = obj_size s1" "fd_table s' = fd_table s1"
    "next_obj s' = next_obj s1" "trace s' = trace s1 @ [EvFstat r 0]"
    using existing(4) by (cases rule: get_shared_memory_size_cases) auto
  from existing(1) show thesis
  proof (cases rule: shm_open_cases)
    case failed
    with existing(2) show thesis by simp
  next
    case (attached oid')
    with q existing(1,4) show thesis
      by (intro that(2) [of oid']) auto
  next
    case created
    with q existing(4) show thesis by simp
  qed
next
  case (resized s1 z s2)
  from resized(5) obtain oid where t: "fd_table s2 r = Some oid" "0 \<le>s size'"
    "shm_names s' = shm_names s2" "obj_size s' = (obj_size s2)(oid := size')"
    "fd_table s' = fd_table s2" "next_obj s' = next_obj s2"
    "trace s' = trace s2 @ [EvFtruncate r size' 0]"
    by (cases rule: ftruncate_cases) auto
  from resized(3) obtain q where g: "shm_names s2 = shm_names s1" "obj_size s2 = obj_size s1"
    "fd_table s2 = fd_table s1" "next_obj s2 = next_obj s1" "trace s2 = trace s1 @ q"
    "q = [EvFstat r 0] \<or> q = [EvFstat r (- 1), EvPerror ''fstat'']"
    "q = [EvFstat r 0] \<longrightarrow> (\<forall>oid. fd_table s1 r = Some oid \<longrightarrow> z = obj_size s1 oid)"
    by (cases rule: get_shared_memory_size_cases) auto
  from resized(1) show thesis
  proof (cases rule: shm_open_cases)
    case failed
    with resized(2) show thesis by simp
  next
    case (attached oid')
    with t g resized(1,4) show thesis
      by (intro that(3) [where oid = oid' and q = q]) auto
  next
    case created
    with t g resized(1,4) show thesis
      by (intro that(3) [where oid = "next_obj s" and q = q]) auto
  qed
next
  case (resize_failed fd s1 z s2 s3 c)
  from resize_failed(5) have t: "shm_names s3 = shm_names s2" "obj_size s3 = obj_size s2"
    "fd_table s3 = fd_table s2" "next_obj s3 = next_obj s2"
    "trace s3 = trace s2 @ [EvFtruncate fd size' (- 1)]"
    by (cases rule: ftruncate_cases; simp)+
  from resize_failed(3) obtain q where g: "shm_names s2 = shm_names s1" "obj_size s2 = obj_size s1"
    "fd_table s2 = fd_table s1" "next_obj s2 = next_obj s1" "trace s2 = trace s1 @ q"
    "q = [EvFstat fd 0] \<or> q = [EvFstat fd (- 1), EvPerror ''fstat'']"
    "q = [EvFstat fd 0] \<longrightarrow> (\<forall>oid. fd_table s1 fd = Some oid \<longrightarrow> z = obj_size s1 oid)"
    by (cases rule: get_shared_memory_size_cases) auto
  from resize_failed(1) show thesis
  proof (cases rule: shm_open_cases)
    case failed
    with resize_failed(2) show thesis by simp
  next
    case (attached oid')
    from resize_failed(6) attached t g have c: "shm_names s' = shm_names s3"
      "obj_size s' = obj_size s3" "fd_table s' = fd_table s" "next_obj s' = next_obj s3"
      "trace s' = trace s3 @ [EvPerror ''ftruncate'', EvClose fd 0]"
      by (cases rule: close_cases; auto simp: perror_def record_event_def)+
    with attached t g resize_failed(1,4,7) show thesis
      by (intro that(4) [where fd = fd and oid = oid' and q = q]) auto
  next
    case created
    from resize_failed(6) created t g have c: "shm_names s' = shm_names s3"
      "obj_size s' = obj_size s3" "fd_table s' = fd_table s" "next_obj s' = next_obj s3"
      "trace s' = trace s3 @ [EvPerror ''ftruncate'', EvClose fd 0]"
      by (cases rule: close_cases; auto simp: perror_def record_event_def)+
    with created t g resize_failed(1,4,7) show thesis
      by (intro that(4) [where fd = fd and oid = "next_obj s" and q = q]) auto
  qed
qed

lemma unlink_shared_memory_run [consumes 1, case_names failed ok]:
  assumes "unlink_shared_memory name s = s'"
  obtains
    (failed) "fst (shm_unlink name s) = - 1" "shm_names s' = shm_names s"
      "obj_size s' = obj_size s" "fd_table s' = fd_table s" "next_obj s' = next_obj s"
      "trace s' = trace s @ [EvShmUnlink name (- 1), EvPerror ''shm_unlink'']"
  | (ok) oid where "fst (shm_unlink name s) = 0" "shm_names s name = Some oid"
      "shm_names s' = (shm_names s)(name := None)" "obj_size s' = obj_size s"
      "fd_table s' = fd_table s" "next_obj s' = next_obj s"
      "trace s' = trace s @ [EvShmUnlink name 0]"
proof -
  obtain r s1 where un: "shm_unlink name s = (r, s1)"
    by (cases "shm_unlink name s")
  from un show thesis
  proof (cases rule: shm_unlink_cases)
    case failed
    with assms un have "s' = perror ''shm_unlink'' s1"
      by (simp add: unlink_shared_memory_def)
    with failed un show thesis
      by (intro that(1)) (simp_all add: perror_def record_event_def)
  next
    case (ok oid)
    with assms un have "s' = s1"
      by (simp add: unlink_shared_memory_def)
    with ok un show thesis
      by (intro that(2) [of oid]) simp_all
  qed
qed

lemma calls_ok_append:
  "trace s' = trace s @ es \<Longrightarrow> calls_ok s s' = list_all ok_event es"
  by (simp add: calls_ok_def new_events_def)

subsection \<open>Well-formed states stay well-formed\<close>

lemma wf_os_init: "wf_os (os_init limit faults)"
  by (simp add: wf_os_def os_init_def word_sle_eq)

lemma wf_os_get_shared_memory_size:
  "wf_os s \<Longrightarrow> get_shared_memory_size fd s = (z, s') \<Longrightarrow> wf_os s'"
  by (erule get_shared_memory_size_cases) (simp_all add: wf_os_def)

lemma wf_os_create_shared_memory:
  assumes "wf_os s" and "create_shared_memory name size' s = (r, s')"
  shows "wf_os s'"
  using assms(2)
proof (cases rule: create_shared_memory_run)
  case open_failed
  with assms(1) show ?thesis by (simp add: wf_os_def)
next
  case (existing oid)
  with assms(1) show ?thesis by (auto simp: wf_os_def)
next
  case (resized oid q)
  with assms(1) show ?thesis by (auto simp: wf_os_def less_Suc_eq)
next
  case (resize_failed fd oid q)
  with assms(1) show ?thesis by (auto simp: wf_os_def less_Suc_eq word_sle_eq)
qed

lemma wf_os_unlink_shared_memory:
  "wf_os s \<Longrightarrow> unlink_shared_memory name s = s' \<Longrightarrow> wf_os s'"
  by (erule unlink_shared_memory_run) (auto simp: wf_os_def split: if_splits)

lemma wf_os_close: "wf_os s \<Longrightarrow> close fd s = (r, s') \<Longrightarrow> wf_os s'"
  by (erule close_cases) (auto simp: wf_os_def split: if_splits)

lemma wf_os_main:
  assumes "wf_os s" and "main s = (status, s')"
  shows "wf_os s'"
proof -
  obtain fd s1 where c: "create_shared_memory ''/myshm'' 1024 s = (fd, s1)"
    by (cases "create_shared_memory ''/myshm'' 1024 s")
  from assms(1) c have w1: "wf_os s1"
    by (rule wf_os_create_shared_memory)
  show ?thesis
  proof (cases "fd <s 0")
    case True
    with assms(2) c have "s' = exit_process EXIT_FAILURE s1"
      by (simp add: main_def)
    with w1 show ?thesis
      by (simp add: wf_os_def exit_process_def record_event_def)
  next
    case False
    obtain r s2 where cl: "close fd s1 = (r, s2)"
      by (cases "close fd s1")
    with assms(2) c False have "unlink_shared_memory ''/myshm'' s2 = s'"
      by (simp add: main_def)
    moreover from w1 cl have "wf_os s2"
      by (rule wf_os_close)
    ultimately show ?thesis
      by (rule wf_os_unlink_shared_memory [rotated])
  qed
qed

subsection \<open>Runs in which every call succeeds\<close>

lemma create_shared_memory_trace:
  "create_shared_memory name size' s = (r, s') \<Longrightarrow> trace s' = trace s @ new_events s s'"
  by (erule create_shared_memory_run) (simp_all add: new_events_def)

lemma get_shared_memory_size_trace:
  "get_shared_memory_size fd s = (z, s') \<Longrightarrow> trace s' = trace s @ new_events s s'"
  by (erule get_shared_memory_size_cases) (simp_all add: new_events_def)

lemma unlink_shared_memory_trace:
  "unlink_shared_memory name s = s' \<Longrightarrow> trace s' = trace s @ new_events s s'"
  by (erule unlink_shared_memory_run) (simp_all add: new_events_def)

lemma calls_ok_split:
  assumes "trace s1 = trace s @ new_events s s1" and "trace s2 = trace s1 @ new_events s1 s2"
  shows "calls_ok s s2 \<longleftrightarrow> calls_ok s s1 \<and> calls_ok s1 s2"
proof -
  from assms have "new_events s s2 = new_events s s1 @ new_events s1 s2"
    by (metis append.assoc new_events_append)
  then show ?thesis by (simp add: calls_ok_def)
qed

lemma ok_query_reads_size:
  assumes "get_shared_memory_size fd s = (z, s')" and "calls_ok s s'"
    and "fd_table s fd = Some oid"
  shows "z = obj_size s oid"
  using assms(1)
proof (cases rule: get_shared_memory_size_cases)
  case failed
  with assms(2) show ?thesis by (simp add: calls_ok_append)
next
  case (ok oid')
  with assms(3) show ?thesis by simp
qed

lemma attach_keeps_size:
  assumes "shm_names s name = Some oid" and "0 <s obj_size s oid"
    and "create_shared_memory name size' s = (fd, s')" and "calls_ok s s'"
  shows "0 \<le>s fd \<and> fd_table s' fd = Some oid \<and> \<not> list_ex is_resize (new_events s s') \<and>
    obj_size s' = obj_size s \<and> shm_names s' = shm_names s"
  using assms(3)
proof (cases rule: create_shared_memory_run)
  case open_failed
  with assms(4) show ?thesis by (simp add: calls_ok_append word_sle_eq)
next
  case (existing oid')
  with assms(1) show ?thesis by (simp add: new_events_def)
next
  case (resized oid' q)
  with assms(1,2,4) show ?thesis by (auto simp: calls_ok_append)
next
  case (resize_failed fd' oid' q)
  with assms(4) show ?thesis by (simp add: calls_ok_append)
qed

lemma create_success_binds:
  assumes "create_shared_memory name size' s = (fd, s')" and "0 \<le>s fd"
  shows "\<exists>oid. shm_names s' name = Some oid \<and> fd_table s' fd = Some oid"
  using assms(1)
proof (cases rule: create_shared_memory_run)
  case open_failed
  with assms(2) show ?thesis by (simp add: word_sle_eq)
next
  case (existing oid)
  then show ?thesis by simp
next
  case (resized oid q)
  then show ?thesis by simp
next
  case (resize_failed fd' oid q)
  with assms(2) show ?thesis by (simp add: word_sle_eq)
qed

lemma fresh_name_gets_size:
  assumes "shm_names s name = None"
    and "create_shared_memory name size' s = (fd, s1)" and "calls_ok s s1"
  shows "0 \<le>s fd \<and> fd_table s1 fd = Some (next_obj s) \<and> obj_size s1 (next_obj s) = size' \<and>
    shm_names s1 name = Some (next_obj s) \<and> 0 \<le>s size' \<and>
    new_events s s1 = [EvShmOpen name fd, EvFstat fd 0, EvFtruncate fd size' 0]"
  using assms(2)
proof (cases rule: create_shared_memory_run)
  case open_failed
  with assms(3) show ?thesis by (simp add: calls_ok_append word_sle_eq)
next
  case (existing oid)
  with assms(1) show ?thesis by simp
next
  case (resized oid q)
  with assms(1,3) show ?thesis by (auto simp: calls_ok_append new_events_def)
next
  case (resize_failed fd' oid q)
  with assms(3) show ?thesis by (simp add: calls_ok_append)
qed

lemma create_query_steps:
  assumes "create_query name size' s = (fd, z, s2)"
  obtains s1 where "create_shared_memory name size' s = (fd, s1)"
    and "get_shared_memory_size fd s1 = (z, s2)"
  using assms by (auto simp: create_query_def split: prod.splits)

lemma create_query_calls_ok:
  assumes "create_shared_memory name size' s = (fd, s1)"
    and "get_shared_memory_size fd s1 = (z, s2)"
  shows "trace s2 = trace s @ new_events s s2"
    and "calls_ok s s2 \<longleftrightarrow> calls_ok s s1 \<and> calls_ok s1 s2"
proof -
  note t = create_shared_memory_trace [OF assms(1)] get_shared_memory_size_trace [OF assms(2)]
  from t show "trace s2 = trace s @ new_events s s2"
    by (metis append.assoc new_events_append)
  from t show "calls_ok s s2 \<longleftrightarrow> calls_ok s s1 \<and> calls_ok s1 s2"
    by (rule calls_ok_split)
qed

section \<open>The claims\<close>

text \<open>Definitions to unfold when a run is evaluated on a concrete state.\<close>

lemma upt_0_8: "[0..<8] = [0, 1, 2, 3, 4, 5, 6, 7 :: nat]"
  by code_simp

lemmas run_defs = create_shared_memory_def shm_open_def next_fault_def record_event_def
  get_shared_memory_size_def fstat_def perror_def ftruncate_def close_def shm_unlink_def
  unlink_shared_memory_def main_def exit_process_def EXIT_FAILURE_def new_events_def
  O_CREAT_def O_RDWR_def lowest_free_fd_def os_init_def os_testshm_def create_query_def
  unlink_create_query_def
  calls_ok_def word_sless_alt word_sle_eq upt_0_8

text \<open>
  Claim C1. First-writer-wins sizing. When the name is bound to an object of positive
  size and the open and the size query of \<open>create_shared_memory\<close> succeed, so that a positive
  size is queried, the call returns a descriptor of that object and makes no
  \<open>ftruncate\<close> call: every object keeps its size whatever size was requested, and the
  namespace is unchanged. In particular, after a successful call on which the queried
  size is positive, a second call on the same name with any requested size, followed by
  a size query, yields the size queried after the first call.
\<close>

theorem first_writer_wins:
  "(shm_names s name = Some oid \<and> 0 <s obj_size s oid \<and>
    create_shared_memory name size' s = (fd, s') \<and> calls_ok s s' \<longrightarrow>
      0 \<le>s fd \<and> fd_table s' fd = Some oid \<and> \<not> list_ex is_resize (new_events s s') \<and>
      obj_size s' = obj_size s \<and> shm_names s' = shm_names s) \<and>
   (create_query name req_a sa = (fda, za, sb) \<and> 0 \<le>s fda \<and> 0 <s za \<and>
    create_query name req_b sb = (fdb, zb, sc) \<and> calls_ok sb sc \<longrightarrow>
      0 \<le>s fdb \<and> zb = za)"
proof (rule conjI; rule impI)
  assume "shm_names s name = Some oid \<and> 0 <s obj_size s oid \<and>
    create_shared_memory name size' s = (fd, s') \<and> calls_ok s s'"
  then show "0 \<le>s fd \<and> fd_table s' fd = Some oid \<and> \<not> list_ex is_resize (new_events s s') \<and>
      obj_size s' = obj_size s \<and> shm_names s' = shm_names s"
    using attach_keeps_size [of s name oid size' fd s'] by simp
next
  assume "create_query name req_a sa = (fda, za, sb) \<and> 0 \<le>s fda \<and> 0 <s za \<and>
    create_query name req_b sb = (fdb, zb, sc) \<and> calls_ok sb sc"
  then have first: "create_query name req_a sa = (fda, za, sb)" and fda: "0 \<le>s fda"
    and pos: "0 <s za" and second: "create_query name req_b sb = (fdb, zb, sc)"
    and ok: "calls_ok sb sc"
    by simp_all
  from first obtain ta where c1: "create_shared_memory name req_a sa = (fda, ta)"
    and q1: "get_shared_memory_size fda ta = (za, sb)"
    by (rule create_query_steps)
  from second obtain tb where c2: "create_shared_memory name req_b sb = (fdb, tb)"
    and q2: "get_shared_memory_size fdb tb = (zb, sc)"
    by (rule create_query_steps)
  from create_success_binds [OF c1 fda] obtain oid
    where bound: "shm_names ta name = Some oid" "fd_table ta fda = Some oid"
    by blast
  from q1 pos bound have sb: "shm_names sb name = Some oid" "obj_size sb oid = za"
    by (cases rule: get_shared_memory_size_cases; simp add: word_sless_alt)+
  from create_query_calls_ok(2) [OF c2 q2] ok have ok2: "calls_ok sb tb" "calls_ok tb sc"
    by simp_all
  from sb pos have "0 <s obj_size sb oid"
    by simp
  from attach_keeps_size [OF sb(1) this c2 ok2(1)]
  have tb: "0 \<le>s fdb" "fd_table tb fdb = Some oid" "obj_size tb = obj_size sb"
    by simp_all
  from ok_query_reads_size [OF q2 ok2(2) tb(2)] tb sb
  show "0 \<le>s fdb \<and> zb = za"
    by simp
qed

theorem first_writer_wins_witness:
  "shm_names (os_testshm []) ''/testshm'' = Some 0 \<and> 0 <s obj_size (os_testshm []) 0 \<and>
   calls_ok (os_testshm []) (snd (create_shared_memory ''/testshm'' 8192 (os_testshm []))) \<and>
   obj_size (snd (create_shared_memory ''/testshm'' 8192 (os_testshm []))) = obj_size (os_testshm []) \<and>
   0 \<le>s fst (create_query ''/testshm'' 4096 (os_init 8 [])) \<and>
   0 <s fst (snd (create_query ''/testshm'' 4096 (os_init 8 []))) \<and>
   calls_ok (snd (snd (create_query ''/testshm'' 4096 (os_init 8 []))))
     (snd (snd (create_query ''/testshm'' 8192
        (snd (snd (create_query ''/testshm'' 4096 (os_init 8 []))))))) \<and>
   fst (snd (create_query ''/testshm'' 8192
      (snd (snd (create_query ''/testshm'' 4096 (os_init 8 [])))))) = 4096"
proof -
  have a: "shm_names (os_testshm []) ''/testshm'' = Some 0" "0 <s obj_size (os_testshm []) 0"
    "calls_ok (os_testshm []) (snd (create_shared_memory ''/testshm'' 8192 (os_testshm [])))"
    by (simp_all add: run_defs)
  have x: "create_query ''/testshm'' 4096 (os_init 8 []) =
      (0, 4096,
       \<lparr>shm_names = [''/testshm'' \<mapsto> 0], obj_size = (\<lambda>_. 0)(0 := 4096),
        fd_table = [0 \<mapsto> 0], open_max = 8, next_obj = 1, fault_plan = [],
        trace = [EvShmOpen ''/testshm'' 0, EvFstat 0 0, EvFtruncate 0 4096 0, EvFstat 0 0]\<rparr>)"
    by (simp add: run_defs)
  have b: "0 \<le>s fst (create_query ''/testshm'' 4096 (os_init 8 []))"
    "0 <s fst (snd (create_query ''/testshm'' 4096 (os_init 8 [])))"
    "calls_ok (snd (snd (create_query ''/testshm'' 4096 (os_init 8 []))))
       (snd (snd (create_query ''/testshm'' 8192
          (snd (snd (create_query ''/testshm'' 4096 (os_init 8 [])))))))"
    unfolding x by (simp_all add: run_defs)
  have z: "fst (snd (create_query ''/testshm'' 4096 (os_init 8 []))) = 4096"
    unfolding x by simp
  from first_writer_wins
    [where s = "os_testshm []" and name = "''/testshm''" and oid = 0 and size' = 8192
      and fd = "fst (create_shared_memory ''/testshm'' 8192 (os_testshm []))"
      and s' = "snd (create_shared_memory ''/testshm'' 8192 (os_testshm []))"
      and req_a = 4096 and sa = "os_init 8 []"
      and fda = "fst (create_query ''/testshm'' 4096 (os_init 8 []))"
      and za = "fst (snd (create_query ''/testshm'' 4096 (os_init 8 [])))"
      and sb = "snd (snd (create_query ''/testshm'' 4096 (os_init 8 [])))"
      and req_b = 8192
      and fdb = "fst (create_query ''/testshm'' 8192
        (snd (snd (create_query ''/testshm'' 4096 (os_init 8 [])))))"
      and zb = "fst (snd (create_query ''/testshm'' 8192
        (snd (snd (create_query ''/testshm'' 4096 (os_init 8 []))))))"
      and sc = "snd (snd (create_query ''/testshm'' 8192
        (snd (snd (create_query ''/testshm'' 4096 (os_init 8 []))))))"]
    a b
  have "obj_size (snd (create_shared_memory ''/testshm'' 8192 (os_testshm []))) = obj_size (os_testshm []) \<and>
    fst (snd (create_query ''/testshm'' 8192
      (snd (snd (create_query ''/testshm'' 4096 (os_init 8 [])))))) =
    fst (snd (create_query ''/testshm'' 4096 (os_init 8 [])))"
    by simp
  with a b z show ?thesis by simp
qed

text \<open>
  Claim C2 fails on the code. When \<open>fstat\<close> fails on the descriptor just opened,
  \<open>get_shared_memory_size\<close> returns \<open>-1\<close>, which \<open>create_shared_memory\<close> does not tell apart
  from a size of zero: it goes on to \<open>ftruncate\<close> and, when that succeeds, returns the
  descriptor. In the run below \<open>/testshm\<close> exists with 4096 bytes, the size query fails, and
  the call returns descriptor 0 after resizing the existing object to 8192 bytes.
\<close>

theorem stat_failure_still_resizes:
  "fst (create_shared_memory ''/testshm'' 8192 (os_testshm [False, True])) = 0 \<and>
   new_events (os_testshm [False, True])
     (snd (create_shared_memory ''/testshm'' 8192 (os_testshm [False, True]))) =
     [EvShmOpen ''/testshm'' 0, EvFstat 0 (- 1), EvPerror ''fstat'', EvFtruncate 0 8192 0] \<and>
   obj_size (os_testshm [False, True]) 0 = 4096 \<and>
   obj_size (snd (create_shared_memory ''/testshm'' 8192 (os_testshm [False, True]))) 0 = 8192"
  by (simp add: run_defs)

text \<open>
  Claim C3. On a name that is not bound, with a positive requested size, when every
  operating-system call of the run succeeds, \<open>create_shared_memory\<close> returns a
  non-negative descriptor and \<open>get_shared_memory_size\<close> on it returns exactly the requested
  size. The name need not even be non-empty: the source passes it on unchecked.
\<close>

theorem first_creation_has_requested_size:
  assumes "shm_names s name = None" and "0 <s size'"
    and "create_query name size' s = (fd, z, s')"
    and "calls_ok s s'"
  shows "0 \<le>s fd \<and> z = size'"
proof -
  from assms(3) obtain s1 where c: "create_shared_memory name size' s = (fd, s1)"
    and q: "get_shared_memory_size fd s1 = (z, s')"
    by (rule create_query_steps)
  from create_query_calls_ok(2) [OF c q] assms(4) have ok: "calls_ok s s1" "calls_ok s1 s'"
    by simp_all
  from fresh_name_gets_size [OF assms(1) c ok(1)]
  have fd: "0 \<le>s fd" "fd_table s1 fd = Some (next_obj s)" "obj_size s1 (next_obj s) = size'"
    by simp_all
  from ok_query_reads_size [OF q ok(2) fd(2)] fd show ?thesis
    by simp
qed

theorem first_creation_has_requested_size_witness:
  "shm_names (os_init 8 []) ''/testshm'' = None \<and> (0 :: c_long) <s 4096 \<and>
   calls_ok (os_init 8 []) (snd (snd (create_query ''/testshm'' 4096 (os_init 8 [])))) \<and>
   fst (snd (create_query ''/testshm'' 4096 (os_init 8 []))) = 4096"
proof -
  have h1: "shm_names (os_init 8 []) ''/testshm'' = None"
    by (simp add: os_init_def)
  have h2: "(0 :: c_long) <s 4096"
    by (simp add: word_sless_alt)
  have h3: "calls_ok (os_init 8 []) (snd (snd (create_query ''/testshm'' 4096 (os_init 8 []))))"
    by (simp add: run_defs)
  have e: "create_query ''/testshm'' 4096 (os_init 8 []) =
      (fst (create_query ''/testshm'' 4096 (os_init 8 [])),
       fst (snd (create_query ''/testshm'' 4096 (os_init 8 []))),
       snd (snd (create_query ''/testshm'' 4096 (os_init 8 []))))"
    by simp
  from first_creation_has_requested_size [OF h1 h2 e h3] h1 h2 h3
  show ?thesis by simp
qed

text \<open>
  Claim C4. When the \<open>ftruncate\<close> call of \<open>create_shared_memory\<close> fails, the run ends with the
  failed \<open>ftruncate\<close>, the \<open>perror\<close> and a successful \<open>close\<close> of the descriptor that \<open>shm_open\<close>
  had returned; \<open>create_shared_memory\<close> returns \<open>-1\<close>, and the descriptor table is the one
  from before the call: that descriptor, free before, is free again.
\<close>

theorem resize_failure_closes_descriptor:
  assumes "create_shared_memory name size' s = (r, s')"
    and "list_ex failed_resize (new_events s s')"
  shows "r = - 1 \<and> r <s 0 \<and>
    fd_table s (fst (shm_open name (O_CREAT OR O_RDWR) 438 s)) = None \<and>
    fd_table s' (fst (shm_open name (O_CREAT OR O_RDWR) 438 s)) = None \<and>
    fd_table s' = fd_table s \<and>
    drop (length (new_events s s') - 3) (new_events s s') =
      [EvFtruncate (fst (shm_open name (O_CREAT OR O_RDWR) 438 s)) size' (- 1),
       EvPerror ''ftruncate'',
       EvClose (fst (shm_open name (O_CREAT OR O_RDWR) 438 s)) 0]"
  using assms(1)
proof (cases rule: create_shared_memory_run)
  case open_failed
  with assms(2) show ?thesis by (simp add: new_events_def)
next
  case (existing oid)
  with assms(2) show ?thesis by (simp add: new_events_def)
next
  case (resized oid q)
  with assms(2) show ?thesis by (auto simp: new_events_def)
next
  case (resize_failed fd oid q)
  then show ?thesis by (auto simp: new_events_def)
qed

theorem resize_failure_closes_descriptor_witness:
  "list_ex failed_resize (new_events (os_init 8 [])
      (snd (create_shared_memory ''/testshm'' (- 5) (os_init 8 [])))) \<and>
   fst (create_shared_memory ''/testshm'' (- 5) (os_init 8 [])) = - 1 \<and>
   fd_table (snd (create_shared_memory ''/testshm'' (- 5) (os_init 8 []))) = fd_table (os_init 8 [])"
proof -
  have h: "list_ex failed_resize (new_events (os_init 8 [])
      (snd (create_shared_memory ''/testshm'' (- 5) (os_init 8 []))))"
    by (simp add: run_defs)
  from resize_failure_closes_descriptor [OF prod.collapse [symmetric] h] h show ?thesis
    by simp
qed

text \<open>
  Claim C5 fails as stated: it is claimed for every size, but a negative size is never
  honoured. On \<open>/testshm\<close>, unlinked and created again with size \<open>-5\<close>, \<open>ftruncate\<close> rejects
  the length, \<open>create_shared_memory\<close> returns \<open>-1\<close>, and the size query on \<open>-1\<close> does not
  return \<open>-5\<close>.
\<close>

theorem negative_size_is_not_honoured:
  "fst (unlink_create_query ''/testshm'' (- 5) (os_testshm [])) = - 1 \<and>
   fst (snd (unlink_create_query ''/testshm'' (- 5) (os_testshm []))) \<noteq> - 5"
  by (simp add: run_defs)

text \<open>
  Claim C5, amended. For every name and size, when every operating-system call of the
  run succeeds (which a negative size excludes), \<open>unlink_shared_memory\<close> followed by
  \<open>create_shared_memory\<close> on the same name behaves as first-time creation: after the
  unlink the name is unbound; the call opens a new object, queries the size zero and
  resizes the object to the requested size; the size query on the returned descriptor
  returns the requested size; and in a well-formed state the object now bound to the
  name is not the prior one.
\<close>

theorem unlink_then_create_honours_size:
  assumes "unlink_create_query name size' s = (fd, z, s')"
    and "calls_ok s s'"
  shows "shm_names (unlink_shared_memory name s) name = None \<and> 0 \<le>s fd \<and> 0 \<le>s size' \<and>
    new_events (unlink_shared_memory name s) s' =
      [EvShmOpen name fd, EvFstat fd 0, EvFtruncate fd size' 0, EvFstat fd 0] \<and>
    z = size' \<and> (wf_os s \<longrightarrow> shm_names s' name \<noteq> shm_names s name)"
proof -
  define s1 where "s1 = unlink_shared_memory name s"
  then have u: "unlink_shared_memory name s = s1"
    by simp
  from assms(1) obtain s2 where c: "create_shared_memory name size' s1 = (fd, s2)"
    and q: "get_shared_memory_size fd s2 = (z, s')"
    unfolding unlink_create_query_def s1_def by (rule create_query_steps)
  note cq = create_query_calls_ok [OF c q]
  from calls_ok_split [OF unlink_shared_memory_trace [OF u] cq(1)] cq(2) assms(2)
  have ok: "calls_ok s s1" "calls_ok s1 s2" "calls_ok s2 s'"
    by simp_all
  from u obtain oid where un: "shm_names s name = Some oid" "shm_names s1 name = None"
    "next_obj s1 = next_obj s"
  proof (cases rule: unlink_shared_memory_run)
    case failed
    with ok(1) show ?thesis by (simp add: calls_ok_append)
  next
    case (ok oid)
    with that show ?thesis by simp
  qed
  from fresh_name_gets_size [OF un(2) c ok(2)]
  have cr: "0 \<le>s fd" "fd_table s2 fd = Some (next_obj s1)" "obj_size s2 (next_obj s1) = size'"
    "shm_names s2 name = Some (next_obj s1)" "0 \<le>s size'"
    "new_events s1 s2 = [EvShmOpen name fd, EvFstat fd 0, EvFtruncate fd size' 0]"
    by simp_all
  from ok_query_reads_size [OF q ok(3) cr(2)] cr have z: "z = size'"
    by simp
  from q ok(3) have q': "shm_names s' = shm_names s2" "new_events s2 s' = [EvFstat fd 0]"
    by (cases rule: get_shared_memory_size_cases; simp add: calls_ok_append new_events_def)+
  from create_shared_memory_trace [OF c] get_shared_memory_size_trace [OF q] cr(6) q'(2)
  have ev: "new_events s1 s' = [EvShmOpen name fd, EvFstat fd 0, EvFtruncate fd size' 0, EvFstat fd 0]"
    by (simp add: new_events_def)
  have "wf_os s \<longrightarrow> shm_names s' name \<noteq> shm_names s name"
    using un cr(4) q'(1) by (auto simp: wf_os_def)
  with un cr z ev show ?thesis
    by (simp add: s1_def)
qed

theorem unlink_then_create_honours_size_witness:
  "calls_ok (os_testshm []) (snd (snd (unlink_create_query ''/testshm'' 2048 (os_testshm [])))) \<and>
   fst (snd (unlink_create_query ''/testshm'' 2048 (os_testshm []))) = 2048 \<and>
   wf_os (os_testshm []) \<and>
   shm_names (snd (snd (unlink_create_query ''/testshm'' 2048 (os_testshm [])))) ''/testshm''
     \<noteq> shm_names (os_testshm []) ''/testshm''"
proof -
  have h: "calls_ok (os_testshm []) (snd (snd (unlink_create_query ''/testshm'' 2048 (os_testshm []))))"
    by (simp add: run_defs)
  have w: "wf_os (os_testshm [])"
    by (simp add: wf_os_def os_testshm_def word_sle_eq)
  have e: "unlink_create_query ''/testshm'' 2048 (os_testshm []) =
      (fst (unlink_create_query ''/testshm'' 2048 (os_testshm [])),
       fst (snd (unlink_create_query ''/testshm'' 2048 (os_testshm []))),
       snd (snd (unlink_create_query ''/testshm'' 2048 (os_testshm []))))"
    by simp
  from unlink_then_create_honours_size [OF e h] h w
  show ?thesis by simp
qed

text \<open>
  Claim C6. When the \<open>shm_open\<close> call of \<open>create_shared_memory\<close> fails (returns a
  negative value), \<open>create_shared_memory\<close> returns \<open>-1\<close>, which is negative, right after
  reporting the error: the run consists of the failed \<open>shm_open\<close> and the \<open>perror\<close>, with no
  size query and no resize, and names, sizes and descriptors are left as they were.
\<close>

theorem open_failure_returns_sentinel:
  assumes "create_shared_memory name size' s = (r, s')"
    and "fst (shm_open name (O_CREAT OR O_RDWR) 438 s) <s 0"
  shows "r = - 1 \<and> r <s 0 \<and>
    new_events s s' = [EvShmOpen name (- 1), EvPerror ''shm_open''] \<and>
    \<not> list_ex is_size_query (new_events s s') \<and> \<not> list_ex is_resize (new_events s s') \<and>
    shm_names s' = shm_names s \<and> obj_size s' = obj_size s \<and> fd_table s' = fd_table s"
  using assms(1)
proof (cases rule: create_shared_memory_run)
  case open_failed
  then show ?thesis by (simp add: new_events_def)
next
  case (existing oid)
  with assms(2) show ?thesis by (auto dest: not_neg_and_neg)
next
  case (resized oid q)
  with assms(2) show ?thesis by (auto dest: not_neg_and_neg)
next
  case (resize_failed fd oid q)
  with assms(2) show ?thesis by (auto dest: not_neg_and_neg)
qed

theorem open_failure_returns_sentinel_witness:
  "fst (shm_open ''/testshm'' (O_CREAT OR O_RDWR) 438 (os_init 8 [True])) <s 0 \<and>
   fst (create_shared_memory ''/testshm'' 4096 (os_init 8 [True])) = - 1 \<and>
   new_events (os_init 8 [True]) (snd (create_shared_memory ''/testshm'' 4096 (os_init 8 [True])))
     = [EvShmOpen ''/testshm'' (- 1), EvPerror ''shm_open'']"
proof -
  have h: "fst (shm_open ''/testshm'' (O_CREAT OR O_RDWR) 438 (os_init 8 [True])) <s 0"
    by (simp add: run_defs)
  from open_failure_returns_sentinel [OF prod.collapse [symmetric] h] h show ?thesis
    by simp
qed

text \<open>
  Claim C7. \<open>shm_unlink\<close> fails on a name that is not bound (one that was never created).
  Whenever \<open>shm_unlink\<close> fails, \<open>unlink_shared_memory\<close> reports it with \<open>perror\<close> and returns:
  the run holds these two events only, none of them \<open>exit\<close>, and names, sizes, descriptors
  and the object counter are unchanged.
\<close>

theorem unlink_failure_is_not_fatal:
  assumes "unlink_shared_memory name s = s'"
  shows "(shm_names s name = None \<longrightarrow> fst (shm_unlink name s) = - 1) \<and>
    (fst (shm_unlink name s) = - 1 \<longrightarrow>
       new_events s s' = [EvShmUnlink name (- 1), EvPerror ''shm_unlink''] \<and>
       \<not> list_ex is_exit (new_events s s') \<and>
       shm_names s' = shm_names s \<and> obj_size s' = obj_size s \<and> fd_table s' = fd_table s \<and>
       next_obj s' = next_obj s)"
  using assms
proof (cases rule: unlink_shared_memory_run)
  case failed
  then show ?thesis by (simp add: new_events_def unbound_name_unlink_fails)
next
  case (ok oid)
  then show ?thesis by simp
qed

theorem unlink_failure_is_not_fatal_witness:
  "shm_names (os_init 8 []) ''/never'' = None \<and>
   fst (shm_unlink ''/never'' (os_init 8 [])) = - 1 \<and>
   new_events (os_init 8 []) (unlink_shared_memory ''/never'' (os_init 8 []))
     = [EvShmUnlink ''/never'' (- 1), EvPerror ''shm_unlink''] \<and>
   shm_names (unlink_shared_memory ''/never'' (os_init 8 [])) = shm_names (os_init 8 [])"
proof -
  have h: "shm_names (os_init 8 []) ''/never'' = None"
    by (simp add: os_init_def)
  from unlink_failure_is_not_fatal [where name = "''/never''" and s = "os_init 8 []", OF refl] h show ?thesis
    by simp
qed

text \<open>
  Claim C8. When \<open>fstat\<close> succeeds, \<open>get_shared_memory_size\<close> returns the size of the object
  behind the descriptor, which is non-negative in a well-formed state; when \<open>fstat\<close> fails,
  it reports the failure with \<open>perror\<close> and returns \<open>-1\<close>, which is negative. In both cases
  names, object sizes and descriptors are unchanged.
\<close>

theorem query_size_result:
  assumes "get_shared_memory_size fd s = (z, s')"
  shows "(fst (fstat fd s) = 0 \<longrightarrow>
       map_option (obj_size s) (fd_table s fd) = Some z \<and> (wf_os s \<longrightarrow> 0 \<le>s z) \<and>
       new_events s s' = [EvFstat fd 0]) \<and>
    (fst (fstat fd s) \<noteq> 0 \<longrightarrow>
       z = - 1 \<and> z <s 0 \<and> new_events s s' = [EvFstat fd (- 1), EvPerror ''fstat'']) \<and>
    shm_names s' = shm_names s \<and> obj_size s' = obj_size s \<and> fd_table s' = fd_table s \<and>
    next_obj s' = next_obj s"
  using assms
proof (cases rule: get_shared_memory_size_cases)
  case failed
  then show ?thesis by (simp add: new_events_def)
next
  case (ok oid)
  then show ?thesis by (simp add: new_events_def wf_os_def)
qed

theorem query_size_result_witness:
  "fst (fstat 3 (os_testshm [])) \<noteq> 0 \<and>
   fst (get_shared_memory_size 3 (os_testshm [])) = - 1 \<and>
   fst (fstat 0 (snd (create_shared_memory ''/testshm'' 8192 (os_testshm [])))) = 0 \<and>
   wf_os (snd (create_shared_memory ''/testshm'' 8192 (os_testshm []))) \<and>
   fst (get_shared_memory_size 0 (snd (create_shared_memory ''/testshm'' 8192 (os_testshm []))))
     = 4096"
proof -
  have h1: "fst (fstat 3 (os_testshm [])) \<noteq> 0"
    by (simp add: run_defs)
  have h2: "fst (fstat 0 (snd (create_shared_memory ''/testshm'' 8192 (os_testshm [])))) = 0"
    by (simp add: run_defs)
  have "wf_os (os_testshm [])"
    by (simp add: wf_os_def os_testshm_def word_sle_eq)
  then have h3: "wf_os (snd (create_shared_memory ''/testshm'' 8192 (os_testshm [])))"
    by (rule wf_os_create_shared_memory) (rule prod.collapse [symmetric])
  have h4: "map_option (obj_size (snd (create_shared_memory ''/testshm'' 8192 (os_testshm []))))
      (fd_table (snd (create_shared_memory ''/testshm'' 8192 (os_testshm []))) 0) = Some 4096"
    by (simp add: run_defs)
  from query_size_result [OF prod.collapse [symmetric], of 3 "os_testshm []"]
    query_size_result [OF prod.collapse [symmetric], of 0
      "snd (create_shared_memory ''/testshm'' 8192 (os_testshm []))"]
    h1 h2 h3 h4
  show ?thesis by simp
qed

text \<open>
  Claim C9. \<open>main\<close> exits with a non-zero status exactly when its \<open>create_shared_memory\<close>
  call returns a negative value; it then calls \<open>exit(EXIT_FAILURE)\<close> and does nothing else:
  names, sizes and descriptors stay as the failed call left them. Otherwise the
  descriptor is open and the name bound; \<open>main\<close> closes the descriptor, which succeeds
  and removes it from the descriptor table, and calls \<open>shm_unlink\<close> on the name. That call
  succeeds unless the operating system injects a failure; when it succeeds the name is
  removed from the namespace, when it fails the failure is reported with \<open>perror\<close> and
  the namespace is unchanged. The exit status is 0 in both cases.
\<close>

theorem main_exit_status:
  assumes "main s = (status, s')"
    and "create_shared_memory ''/myshm'' 1024 s = (fd, s1)"
  shows "(status \<noteq> 0 \<longleftrightarrow> fd <s 0) \<and>
    (fd <s 0 \<longrightarrow> status = EXIT_FAILURE \<and> new_events s1 s' = [EvExit EXIT_FAILURE] \<and>
       shm_names s' = shm_names s1 \<and> obj_size s' = obj_size s1 \<and> fd_table s' = fd_table s1) \<and>
    (\<not> fd <s 0 \<longrightarrow> status = 0 \<and> fd_table s1 fd \<noteq> None \<and> shm_names s1 ''/myshm'' \<noteq> None \<and>
       fd_table s' = (fd_table s1)(fd := None) \<and> obj_size s' = obj_size s1 \<and>
       (\<not> fst (next_fault (snd (close fd s1))) \<longrightarrow>
          fst (shm_unlink ''/myshm'' (snd (close fd s1))) = 0) \<and>
       (fst (shm_unlink ''/myshm'' (snd (close fd s1))) = 0 \<longrightarrow>
          new_events s1 s' = [EvClose fd 0, EvShmUnlink ''/myshm'' 0] \<and>
          shm_names s' = (shm_names s1)(''/myshm'' := None)) \<and>
       (fst (shm_unlink ''/myshm'' (snd (close fd s1))) \<noteq> 0 \<longrightarrow>
          new_events s1 s' =
            [EvClose fd 0, EvShmUnlink ''/myshm'' (- 1), EvPerror ''shm_unlink''] \<and>
          shm_names s' = shm_names s1))"
proof (cases "fd <s 0")
  case True
  with assms have "status = EXIT_FAILURE" and "s' = exit_process EXIT_FAILURE s1"
    by (simp_all add: main_def)
  with True show ?thesis
    by (simp add: exit_process_def record_event_def new_events_def EXIT_FAILURE_def)
next
  case False
  then have nonneg: "0 \<le>s fd"
    by (simp add: word_sle_eq word_sless_alt)
  obtain c s2 where cl: "close fd s1 = (c, s2)"
    by (cases "close fd s1")
  with assms False have st: "status = 0" and s': "unlink_shared_memory ''/myshm'' s2 = s'"
    by (simp_all add: main_def)
  from create_success_binds [OF assms(2) nonneg] obtain oid
    where bound: "shm_names s1 ''/myshm'' = Some oid" "fd_table s1 fd = Some oid"
    by blast
  with cl have s2: "fd_table s2 = (fd_table s1)(fd := None)" "shm_names s2 = shm_names s1"
    "obj_size s2 = obj_size s1" "trace s2 = trace s1 @ [EvClose fd 0]"
    by (cases rule: close_cases; simp)+
  from bound s2 have ok_unlink: "\<not> fst (next_fault s2) \<longrightarrow> fst (shm_unlink ''/myshm'' s2) = 0"
    by (simp add: shm_unlink_succeeds)
  from s' show ?thesis
  proof (cases rule: unlink_shared_memory_run)
    case failed
    with False st s2 bound cl s' ok_unlink show ?thesis by (simp add: new_events_def)
  next
    case (ok oid')
    with False st s2 bound cl s' ok_unlink show ?thesis by (simp add: new_events_def)
  qed
qed

theorem main_exit_status_witness:
  "fst (create_shared_memory ''/myshm'' 1024 (os_init 8 [True])) <s 0 \<and>
   fst (main (os_init 8 [True])) = 1 \<and>
   shm_names (snd (main (os_init 8 [True]))) ''/myshm'' = None \<and>
   \<not> fst (create_shared_memory ''/myshm'' 1024 (os_init 8 [])) <s 0 \<and>
   \<not> fst (next_fault (snd (close (fst (create_shared_memory ''/myshm'' 1024 (os_init 8 [])))
        (snd (create_shared_memory ''/myshm'' 1024 (os_init 8 [])))))) \<and>
   fst (main (os_init 8 [])) = 0 \<and>
   shm_names (snd (create_shared_memory ''/myshm'' 1024 (os_init 8 []))) ''/myshm'' = Some 0 \<and>
   shm_names (snd (main (os_init 8 []))) ''/myshm'' = None \<and>
   fd_table (snd (main (os_init 8 []))) 0 = None \<and>
   new_events (snd (create_shared_memory ''/myshm'' 1024 (os_init 8 []))) (snd (main (os_init 8 [])))
     = [EvClose 0 0, EvShmUnlink ''/myshm'' 0] \<and>
   \<not> fst (create_shared_memory ''/myshm'' 1024 (os_init 8 [False, False, False, True])) <s 0 \<and>
   fst (shm_unlink ''/myshm''
     (snd (close (fst (create_shared_memory ''/myshm'' 1024 (os_init 8 [False, False, False, True])))
        (snd (create_shared_memory ''/myshm'' 1024 (os_init 8 [False, False, False, True])))))) \<noteq> 0 \<and>
   fst (main (os_init 8 [False, False, False, True])) = 0 \<and>
   shm_names (snd (main (os_init 8 [False, False, False, True]))) ''/myshm'' = Some 0 \<and>
   fd_table (snd (main (os_init 8 [False, False, False, True]))) 0 = None"
proof -
  have a: "create_shared_memory ''/myshm'' 1024 (os_init 8 [True]) =
      (- 1, \<lparr>shm_names = Map.empty, obj_size = (\<lambda>_. 0), fd_table = Map.empty, open_max = 8,
             next_obj = 0, fault_plan = [],
             trace = [EvShmOpen ''/myshm'' (- 1), EvPerror ''shm_open'']\<rparr>)"
    by (simp add: run_defs)
  have b: "create_shared_memory ''/myshm'' 1024 (os_init 8 []) =
      (0, \<lparr>shm_names = [''/myshm'' \<mapsto> 0], obj_size = (\<lambda>_. 0)(0 := 1024),
           fd_table = [0 \<mapsto> 0], open_max = 8, next_obj = 1, fault_plan = [],
           trace = [EvShmOpen ''/myshm'' 0, EvFstat 0 0, EvFtruncate 0 1024 0]\<rparr>)"
    by (simp add: run_defs)
  have c: "create_shared_memory ''/myshm'' 1024 (os_init 8 [False, False, False, True]) =
      (0, \<lparr>shm_names = [''/myshm'' \<mapsto> 0], obj_size = (\<lambda>_. 0)(0 := 1024),
           fd_table = [0 \<mapsto> 0], open_max = 8, next_obj = 1, fault_plan = [True],
           trace = [EvShmOpen ''/myshm'' 0, EvFstat 0 0, EvFtruncate 0 1024 0]\<rparr>)"
    by (simp add: run_defs)
  have nf: "\<not> fst (next_fault (snd (close (fst (create_shared_memory ''/myshm'' 1024 (os_init 8 [])))
        (snd (create_shared_memory ''/myshm'' 1024 (os_init 8 []))))))"
    unfolding b by (simp add: run_defs)
  have uf: "fst (shm_unlink ''/myshm''
     (snd (close (fst (create_shared_memory ''/myshm'' 1024 (os_init 8 [False, False, False, True])))
        (snd (create_shared_memory ''/myshm'' 1024 (os_init 8 [False, False, False, True])))))) \<noteq> 0"
    unfolding c by (simp add: run_defs)
  from main_exit_status [OF prod.collapse [symmetric] a]
    main_exit_status [OF prod.collapse [symmetric] b]
    main_exit_status [OF prod.collapse [symmetric] c]
    nf uf
  show ?thesis
    unfolding a b c by (simp add: EXIT_FAILURE_def new_events_def word_sless_alt)
qed

text \<open>
  Claim C10. \<open>create_shared_memory\<close> returns a non-negative value exactly when neither its
  \<open>shm_open\<close> nor its \<open>ftruncate\<close> failed; every other return value is \<open>-1\<close>. So a failed open,
  a failed resize, and a failed size query followed by a failed resize all give the same
  return value \<open>-1\<close>.
\<close>

theorem failures_collapse_to_minus_one:
  assumes "create_shared_memory name size' s = (r, s')"
  shows "(0 \<le>s r \<longleftrightarrow>
       \<not> list_ex failed_open (new_events s s') \<and> \<not> list_ex failed_resize (new_events s s')) \<and>
    (\<not> 0 \<le>s r \<longrightarrow> r = - 1) \<and>
    (list_ex failed_open (new_events s s') \<longrightarrow> r = - 1) \<and>
    (list_ex failed_resize (new_events s s') \<longrightarrow> r = - 1) \<and>
    (list_ex failed_size_query (new_events s s') \<and> list_ex failed_resize (new_events s s')
       \<longrightarrow> r = - 1)"
  using assms
proof (cases rule: create_shared_memory_run)
  case open_failed
  then show ?thesis by (simp add: new_events_def word_sle_eq)
next
  case (existing oid)
  then show ?thesis by (auto simp: new_events_def dest: not_neg_and_neg)
next
  case (resized oid q)
  then show ?thesis by (auto simp: new_events_def dest: not_neg_and_neg)
next
  case (resize_failed fd oid q)
  then show ?thesis by (auto simp: new_events_def word_sle_eq)
qed

theorem failures_collapse_to_minus_one_witness:
  "list_ex failed_open (new_events (os_init 8 [True])
      (snd (create_shared_memory ''/testshm'' 4096 (os_init 8 [True])))) \<and>
   fst (create_shared_memory ''/testshm'' 4096 (os_init 8 [True])) = - 1 \<and>
   list_ex failed_resize (new_events (os_init 8 [False, False, True])
      (snd (create_shared_memory ''/testshm'' 4096 (os_init 8 [False, False, True])))) \<and>
   fst (create_shared_memory ''/testshm'' 4096 (os_init 8 [False, False, True])) = - 1 \<and>
   list_ex failed_size_query (new_events (os_init 8 [False, True, True])
      (snd (create_shared_memory ''/testshm'' 4096 (os_init 8 [False, True, True])))) \<and>
   list_ex failed_resize (new_events (os_init 8 [False, True, True])
      (snd (create_shared_memory ''/testshm'' 4096 (os_init 8 [False, True, True])))) \<and>
   fst (create_shared_memory ''/testshm'' 4096 (os_init 8 [False, True, True])) = - 1 \<and>
   \<not> list_ex failed_open (new_events (os_init 8 [])
      (snd (create_shared_memory ''/testshm'' 4096 (os_init 8 [])))) \<and>
   \<not> list_ex failed_resize (new_events (os_init 8 [])
      (snd (create_shared_memory ''/testshm'' 4096 (os_init 8 [])))) \<and>
   0 \<le>s fst (create_shared_memory ''/testshm'' 4096 (os_init 8 []))"
proof -
  have h1: "list_ex failed_open (new_events (os_init 8 [True])
      (snd (create_shared_memory ''/testshm'' 4096 (os_init 8 [True]))))"
    by (simp add: run_defs)
  have h2: "list_ex failed_resize (new_events (os_init 8 [False, False, True])
      (snd (create_shared_memory ''/testshm'' 4096 (os_init 8 [False, False, True]))))"
    by (simp add: run_defs)
  have h3: "list_ex failed_size_query (new_events (os_init 8 [False, True, True])
        (snd (create_shared_memory ''/testshm'' 4096 (os_init 8 [False, True, True]))))"
    "list_ex failed_resize (new_events (os_init 8 [False, True, True])
        (snd (create_shared_memory ''/testshm'' 4096 (os_init 8 [False, True, True]))))"
    by (simp_all add: run_defs)
  have h4: "\<not> list_ex failed_open (new_events (os_init 8 [])
        (snd (create_shared_memory ''/testshm'' 4096 (os_init 8 []))))"
    "\<not> list_ex failed_resize (new_events (os_init 8 [])
        (snd (create_shared_memory ''/testshm'' 4096 (os_init 8 []))))"
    by (simp_all add: run_defs)
  from failures_collapse_to_minus_one [OF prod.collapse [symmetric], of "''/testshm''" 4096 "os_init 8 [True]"]
    failures_collapse_to_minus_one [OF prod.collapse [symmetric], of "''/testshm''" 4096 "os_init 8 [False, False, True]"]
    failures_collapse_to_minus_one [OF prod.collapse [symmetric], of "''/testshm''" 4096 "os_init 8 [False, True, True]"]
    failures_collapse_to_minus_one [OF prod.collapse [symmetric], of "''/testshm''" 4096 "os_init 8 []"]
    h1 h2 h3 h4
  show ?thesis by blast
qed

end
